theory Spec2Isabelle
  imports Main "HOL-Library.AList"
begin

section \<open>Values of the service package\<close>

text \<open>
  The package-level error values that \<^verbatim>\<open>respondAndLogError\<close> tests for: the ones
  of \<^verbatim>\<open>dataaccess/errs\<close>, \<^verbatim>\<open>ErrMissingValue\<close> of the service package and
  \<^verbatim>\<open>ErrUnmarshal\<close> of the errors package (imported as \<^verbatim>\<open>gerrs\<close>).
\<close>

datatype sentinel =
    ErrEmptyBundleName | ErrEmptyBundleVersion | ErrEmptyGroupName | ErrEmptyUserName
  | ErrMissingValue | ErrFieldRequired
  | ErrNoSuchBundle | ErrNoSuchGroup | ErrNoSuchToken | ErrNoSuchUser
  | ErrAdminUndeletable
  | ErrBundleExists | ErrGroupExists | ErrUserExists
  | ErrNotImplemented
  | ErrDataAccessNotInitialized | ErrDataAccessCantInitialize | ErrDataAccessCantConnect
  | ErrDataAccess
  | ErrUnmarshal

text \<open>
  A non-nil Go \<^verbatim>\<open>error\<close> as the handlers see it: the package-level values that
  \<^verbatim>\<open>gerrs.Is\<close> finds in it (the error itself and whatever it wraps) and the text
  that \<^verbatim>\<open>err.Error()\<close> returns. The errors package is not part of the sources read
  here, so \<^verbatim>\<open>gerrs.Is\<close> is a lookup in that list.
\<close>

datatype error = GoError (matches: "sentinel list") (Error: string)

definition gerrs_Is :: "error \<Rightarrow> sentinel \<Rightarrow> bool" where
  "gerrs_Is err target = (target \<in> set (matches err))"

text \<open>
  \<^verbatim>\<open>gerrs.ErrUnmarshal\<close> as a value. Its text is declared outside the sources read
  here; \<^verbatim>\<open>respondAndLogError\<close> overwrites it before it is shown or logged.
\<close>

definition gerrs_ErrUnmarshal :: error where
  "gerrs_ErrUnmarshal = GoError [ErrUnmarshal] []"

text \<open>The fields of \<^verbatim>\<open>rest.User\<close>, \<^verbatim>\<open>rest.Group\<close> and \<^verbatim>\<open>rest.Token\<close> that the service reads or writes.\<close>

record rest_User =
  Email :: string
  FullName :: string
  Password :: string
  Username :: string

record rest_Group =
  Name :: string

record rest_Token =
  Token :: string
  User :: string

record Request =
  Method :: string
  RequestURI :: string
  Proto :: string
  RemoteAddr :: string
  Header :: "(string \<times> string list) list"
  Body :: string

text \<open>
  \<^verbatim>\<open>r.Header.Get(key)\<close>: the first value stored under the key, the empty string
  when there is none. The header map is kept as a list of keys with their values.
\<close>

definition Header_Get :: "Request \<Rightarrow> string \<Rightarrow> string" where
  "Header_Get r key = (case map_of (Header r) key of None \<Rightarrow> [] | Some [] \<Rightarrow> [] | Some (v # _) \<Rightarrow> v)"

record RequestEvent =
  Addr :: string
  UserID :: string
  Timestamp :: nat
  Request :: string
  Status :: int
  Size :: int

section \<open>Response writers\<close>

text \<open>
  What the caller of the service receives. \<^verbatim>\<open>sent\<close> is the status line once it
  is fixed: \<^verbatim>\<open>net/http\<close> fixes it at the first \<^verbatim>\<open>WriteHeader\<close>, or at 200 at
  the first \<^verbatim>\<open>Write\<close> when no \<^verbatim>\<open>WriteHeader\<close> came before; later calls of
  \<^verbatim>\<open>WriteHeader\<close> and later changes of the header map do not reach the caller.
\<close>

record response =
  headers :: "(string \<times> string) list"
  sent :: "int option"
  body :: string

definition fresh :: response where
  "fresh = \<lparr>headers = [], sent = None, body = []\<rparr>"

definition resp_Header_Set :: "string \<Rightarrow> string \<Rightarrow> response \<Rightarrow> response" where
  "resp_Header_Set k v p =
     (if sent p = None then p\<lparr>headers := AList.update k v (headers p)\<rparr> else p)"

definition resp_WriteHeader :: "int \<Rightarrow> response \<Rightarrow> response" where
  "resp_WriteHeader code p = (if sent p = None then p\<lparr>sent := Some code\<rparr> else p)"

definition resp_Write :: "string \<Rightarrow> response \<Rightarrow> response" where
  "resp_Write bs p = (let q = resp_WriteHeader 200 p in q\<lparr>body := body q @ bs\<rparr>)"

text \<open>The status the caller reads: 200 when the handler returned without writing anything.\<close>

definition final_status :: "response \<Rightarrow> int" where
  "final_status p = (case sent p of None \<Rightarrow> 200 | Some code \<Rightarrow> code)"

text \<open>
  The two implementations of \<^verbatim>\<open>http.ResponseWriter\<close> in play: the server's own
  writer, and \<^verbatim>\<open>StatusCaptureWriter{w, &status, &bytes}\<close>, which embeds a writer and
  points to two \<^verbatim>\<open>int\<close> cells; the constructor carries the contents of the cells.
\<close>

datatype ResponseWriter =
    Sink response
  | StatusCaptureWriter ResponseWriter int int

fun Header_Set :: "string \<Rightarrow> string \<Rightarrow> ResponseWriter \<Rightarrow> ResponseWriter" where
  "Header_Set k v (Sink p) = Sink (resp_Header_Set k v p)"
| "Header_Set k v (StatusCaptureWriter w st by) = StatusCaptureWriter (Header_Set k v w) st by"

fun Write :: "string \<Rightarrow> ResponseWriter \<Rightarrow> ResponseWriter" where
  "Write bs (Sink p) = Sink (resp_Write bs p)"
| "Write bs (StatusCaptureWriter w st by) = StatusCaptureWriter (Write bs w) st (int (length bs))"

fun WriteHeader :: "int \<Rightarrow> ResponseWriter \<Rightarrow> ResponseWriter" where
  "WriteHeader code (Sink p) = Sink (resp_WriteHeader code p)"
| "WriteHeader code (StatusCaptureWriter w st by) = StatusCaptureWriter (WriteHeader code w) code by"

text \<open>The response that reaches the caller through any stack of capture writers.\<close>

fun sink_of :: "ResponseWriter \<Rightarrow> response" where
  "sink_of (Sink p) = p"
| "sink_of (StatusCaptureWriter w st by) = sink_of w"

text \<open>
  \<^verbatim>\<open>http.Error(w, msg, code)\<close>: two header fields, the status, and the message
  followed by a newline in one \<^verbatim>\<open>Write\<close>.
\<close>

definition http_Error :: "ResponseWriter \<Rightarrow> string \<Rightarrow> int \<Rightarrow> ResponseWriter" where
  "http_Error w msg code =
     Write (msg @ [CHR 0x0A])
       (WriteHeader code
         (Header_Set ''X-Content-Type-Options'' ''nosniff''
           (Header_Set ''Content-Type'' ''text/plain; charset=utf-8'' w)))"

section \<open>Logging, telemetry and the state around a request\<close>

datatype level = TraceLevel | InfoLevel | WarnLevel | ErrorLevel

datatype field = ErrorField error | StatusField int | UserField rest_User

record log_entry =
  Level :: level
  Data :: "field list"
  Message :: string

datatype metric =
    TotalRequests string string
  | UnauthorizedRequests string string
  | Errors error

text \<open>The calls made on the data access layer, in the order they are made.\<close>

datatype dal_call =
    CallUserExists string
  | CallUserAuthenticate string string
  | CallUserCreate rest_User
  | CallUserDelete string
  | CallUserList
  | CallTokenGenerate string nat
  | CallTokenEvaluate string
  | CallTokenRetrieveByToken string
  | CallGroupCreate rest_Group
  | CallGroupAddUser string string
  | CallGroupGrantRole string string
  | CallRoleCreate string
  | CallRoleGrantPermission string string string

text \<open>
  Everything a handler can change besides the response: the state of the data access
  layer, the calls made on it, the log, the telemetry, the events sent on the channel of
  the logging middleware, and the clock read by \<^verbatim>\<open>time.Now()\<close>.
\<close>

record 's world =
  store :: 's
  calls :: "dal_call list"
  logs :: "log_entry list"
  telemetry :: "metric list"
  requests :: "RequestEvent list"
  clock :: nat

definition log_write :: "level \<Rightarrow> field list \<Rightarrow> string \<Rightarrow> 's world \<Rightarrow> 's world" where
  "log_write l fs msg s = s\<lparr>logs := logs s @ [\<lparr>Level = l, Data = fs, Message = msg\<rparr>]\<rparr>"

definition Commit :: "metric \<Rightarrow> 's world \<Rightarrow> 's world" where
  "Commit m s = s\<lparr>telemetry := telemetry s @ [m]\<rparr>"

section \<open>The error mapper\<close>

text \<open>
  \<^verbatim>\<open>respondAndLogError\<close>: a \<^verbatim>\<open>switch\<close> whose cases are tried in order; a case
  that falls through shares the body of the next one.
\<close>

definition respondAndLogError :: "ResponseWriter \<Rightarrow> error \<Rightarrow> 's world \<Rightarrow> ResponseWriter \<times> 's world" where
  "respondAndLogError w err s =
     (let msg = Error err in
      if gerrs_Is err ErrEmptyBundleName \<or> gerrs_Is err ErrEmptyBundleVersion
         \<or> gerrs_Is err ErrEmptyGroupName \<or> gerrs_Is err ErrEmptyUserName
         \<or> gerrs_Is err ErrMissingValue \<or> gerrs_Is err ErrFieldRequired
      then (http_Error w msg 417, s)
      else if gerrs_Is err ErrNoSuchBundle \<or> gerrs_Is err ErrNoSuchGroup
         \<or> gerrs_Is err ErrNoSuchToken \<or> gerrs_Is err ErrNoSuchUser
      then (http_Error w msg 404, s)
      else if gerrs_Is err ErrAdminUndeletable
      then (http_Error w msg 403, s)
      else if gerrs_Is err ErrBundleExists \<or> gerrs_Is err ErrGroupExists
         \<or> gerrs_Is err ErrUserExists
      then (http_Error w msg 409, s)
      else if gerrs_Is err ErrNotImplemented
      then (http_Error w msg 501, s)
      else if gerrs_Is err ErrDataAccessNotInitialized \<or> gerrs_Is err ErrDataAccessCantInitialize
         \<or> gerrs_Is err ErrDataAccessCantConnect \<or> gerrs_Is err ErrDataAccess
      then (http_Error w msg 500, log_write ErrorLevel [StatusField 500] msg s)
      else if gerrs_Is err ErrUnmarshal
      then (http_Error w ''Corrupt JSON payload'' 406, s)
      else (http_Error w msg 500,
            log_write ErrorLevel [ErrorField err, StatusField 500] msg
              (Commit (Errors err)
                (log_write WarnLevel [ErrorField err] ''Unhandled server error'' s))))"

section \<open>Collaborators outside the package\<close>

text \<open>
  The interface \<^verbatim>\<open>dataaccess.DataAccess\<close> behind the package variable
  \<^verbatim>\<open>dataAccessLayer\<close>, restricted to the methods the service calls. Every method
  reads and may change the state \<open>'s\<close> of the layer and returns what the Go method
  returns: a value and an error that is \<open>None\<close> for \<^verbatim>\<open>nil\<close>.
\<close>

record 's DataAccess =
  UserExists :: "string \<Rightarrow> 's \<Rightarrow> (bool \<times> error option) \<times> 's"
  UserAuthenticate :: "string \<Rightarrow> string \<Rightarrow> 's \<Rightarrow> (bool \<times> error option) \<times> 's"
  UserCreate :: "rest_User \<Rightarrow> 's \<Rightarrow> error option \<times> 's"
  UserDelete :: "string \<Rightarrow> 's \<Rightarrow> error option \<times> 's"
  UserList :: "'s \<Rightarrow> (rest_User list \<times> error option) \<times> 's"
  TokenGenerate :: "string \<Rightarrow> nat \<Rightarrow> 's \<Rightarrow> (rest_Token \<times> error option) \<times> 's"
  TokenEvaluate :: "string \<Rightarrow> 's \<Rightarrow> bool \<times> 's"
  TokenRetrieveByToken :: "string \<Rightarrow> 's \<Rightarrow> (rest_Token \<times> error option) \<times> 's"
  GroupCreate :: "rest_Group \<Rightarrow> 's \<Rightarrow> error option \<times> 's"
  GroupAddUser :: "string \<Rightarrow> string \<Rightarrow> 's \<Rightarrow> error option \<times> 's"
  GroupGrantRole :: "string \<Rightarrow> string \<Rightarrow> 's \<Rightarrow> error option \<times> 's"
  RoleCreate :: "string \<Rightarrow> 's \<Rightarrow> error option \<times> 's"
  RoleGrantPermission :: "string \<Rightarrow> string \<Rightarrow> string \<Rightarrow> 's \<Rightarrow> error option \<times> 's"

text \<open>A call on \<^verbatim>\<open>dataAccessLayer\<close>: the layer moves on and the call is recorded.\<close>

definition called :: "dal_call \<Rightarrow> ('s \<Rightarrow> 'a \<times> 's) \<Rightarrow> 's world \<Rightarrow> 'a \<times> 's world" where
  "called c f s = (case f (store s) of (a, st) \<Rightarrow> (a, s\<lparr>store := st, calls := calls s @ [c]\<rparr>))"

text \<open>
  \<^verbatim>\<open>encoding/json\<close> on the types of the service: \<^verbatim>\<open>Decode\<close> into a
  \<^verbatim>\<open>rest.User\<close> (\<open>None\<close> when it returns an error) and the bytes that
  \<^verbatim>\<open>Encode\<close> produces before the newline it appends.
\<close>

record json =
  decodeUser :: "string \<Rightarrow> rest_User option"
  encodeUser :: "rest_User \<Rightarrow> string"
  encodeToken :: "rest_Token \<Rightarrow> string"

text \<open>\<^verbatim>\<open>time.Minute\<close>, a \<^verbatim>\<open>time.Duration\<close> counted in nanoseconds.\<close>

definition time_Minute :: nat where
  "time_Minute = 60000000000"

text \<open>
  \<^verbatim>\<open>strings.Split(s, sep)\<close> for a separator of one character, which is how the
  service calls it: the pieces of \<open>s\<close> between the separators, never an empty list.
\<close>

fun strings_Split :: "string \<Rightarrow> char \<Rightarrow> string list" where
  "strings_Split [] sep = [[]]"
| "strings_Split (c # cs) sep =
     (if c = sep then [] # strings_Split cs sep
      else (case strings_Split cs sep of
              [] \<Rightarrow> [[c]]
            | piece # pieces \<Rightarrow> (c # piece) # pieces))"

text \<open>How a call of a handler ends: it returns, or it panics and the callers above it are unwound.\<close>

datatype 'a completion = Returns 'a | Panics 'a

type_synonym 's Handler =
  "ResponseWriter \<Rightarrow> Request \<Rightarrow> 's world \<Rightarrow> (ResponseWriter \<times> 's world) completion"

section \<open>Bootstrap\<close>

text \<open>
  \<^verbatim>\<open>bootstrapUserWithDefaults\<close>. \<open>gen\<close> is what \<^verbatim>\<open>data.GenerateRandomToken(32)\<close>
  returns if it is called: the data package is outside the sources read here, and a random
  token is no function of the arguments.
\<close>

definition bootstrapUserWithDefaults :: "string \<times> error option \<Rightarrow> rest_User \<Rightarrow> rest_User \<times> error option" where
  "bootstrapUserWithDefaults gen user0 =
     (let user1 = (if Email user0 = [] then user0\<lparr>Email := ''gort@localhost''\<rparr> else user0);
          user2 = (if FullName user1 = [] then user1\<lparr>FullName := ''Gort Administrator''\<rparr> else user1);
          user3 = user2\<lparr>Username := ''admin''\<rparr>
      in if Password user3 = []
         then (case gen of
                 (password, Some err) \<Rightarrow> (user3, Some err)
               | (password, None) \<Rightarrow> (user3\<lparr>Password := password\<rparr>, None))
         else (user3, None))"

definition adminPermissions :: "string list" where
  "adminPermissions = [''manage_commands'', ''manage_groups'', ''manage_roles'', ''manage_users'']"

text \<open>The loop over \<^verbatim>\<open>adminPermissions\<close> at the end of \<^verbatim>\<open>handleBootstrap\<close>: it stops at the first error.\<close>

fun grantPermissions :: "'s DataAccess \<Rightarrow> string \<Rightarrow> string list \<Rightarrow> 's world \<Rightarrow> error option \<times> 's world" where
  "grantPermissions D role [] s = (None, s)"
| "grantPermissions D role (p # ps) s =
     (case called (CallRoleGrantPermission role ''gort'' p) (RoleGrantPermission D role ''gort'' p) s of
        (Some err, s1) \<Rightarrow> (Some err, s1)
      | (None, s1) \<Rightarrow> grantPermissions D role ps s1)"

definition handleBootstrap ::
  "'s DataAccess \<Rightarrow> json \<Rightarrow> string \<times> error option \<Rightarrow> ResponseWriter \<Rightarrow> Request \<Rightarrow> 's world
     \<Rightarrow> ResponseWriter \<times> 's world" where
  "handleBootstrap D J gen w r s =
     (let adminGroup = ''admin''; adminRole = ''admin'' in
      case called CallUserList (UserList D) s of
        ((users, Some err), s1) \<Rightarrow> respondAndLogError w err s1
      | ((users, None), s1) \<Rightarrow>
      (if length users \<noteq> 0
       then (http_Error w ''Service already bootstrapped'' 409,
             log_write WarnLevel [] ''Re-bootstrap attempted'' s1)
       else
      (case decodeUser J (Body r) of
        None \<Rightarrow> respondAndLogError w gerrs_ErrUnmarshal s1
      | Some decoded \<Rightarrow>
      (case bootstrapUserWithDefaults gen decoded of
        (user, Some err) \<Rightarrow> respondAndLogError w err s1
      | (user, None) \<Rightarrow>
      (case called (CallUserCreate user) (UserCreate D user) s1 of
        (Some err, s2) \<Rightarrow> respondAndLogError w err s2
      | (None, s2) \<Rightarrow>
      (case called (CallGroupCreate \<lparr>Name = adminGroup\<rparr>) (GroupCreate D \<lparr>Name = adminGroup\<rparr>) s2 of
        (Some err, s3) \<Rightarrow> respondAndLogError w err s3
      | (None, s3) \<Rightarrow>
      (case called (CallGroupAddUser adminGroup (Username user))
              (GroupAddUser D adminGroup (Username user)) s3 of
        (Some err, s4) \<Rightarrow> respondAndLogError w err s4
      | (None, s4) \<Rightarrow>
      (case called (CallRoleCreate adminRole) (RoleCreate D adminRole) s4 of
        (Some err, s5) \<Rightarrow> respondAndLogError w err s5
      | (None, s5) \<Rightarrow>
      (case called (CallGroupGrantRole adminGroup adminRole) (GroupGrantRole D adminGroup adminRole) s5 of
        (Some err, s6) \<Rightarrow> respondAndLogError w err s6
      | (None, s6) \<Rightarrow>
      (case grantPermissions D adminRole adminPermissions s6 of
        (Some err, s7) \<Rightarrow> respondAndLogError w err s7
      | (None, s7) \<Rightarrow> (Write (encodeUser J user @ [CHR 0x0A]) w, s7)))))))))))"

section \<open>Authentication\<close>

definition handleAuthenticate ::
  "'s DataAccess \<Rightarrow> json \<Rightarrow> ResponseWriter \<Rightarrow> Request \<Rightarrow> 's world \<Rightarrow> ResponseWriter \<times> 's world" where
  "handleAuthenticate D J w r s =
     (case decodeUser J (Body r) of
        None \<Rightarrow> respondAndLogError w gerrs_ErrUnmarshal s
      | Some user \<Rightarrow>
      (let username = Username user; password = Password user in
      (case called (CallUserExists username) (UserExists D username) s of
        ((exists, Some err), s1) \<Rightarrow>
          (w, Commit (Errors err)
                (log_write ErrorLevel [UserField user, ErrorField err]
                   ''Authentication: failed to find user'' s1))
      | ((exists, None), s1) \<Rightarrow>
      (if \<not> exists
       then (http_Error w ''No such user'' 400,
             Commit (Errors (GoError [] ''no such user''))
               (log_write ErrorLevel [UserField user] ''Authentication: No such user'' s1))
       else
      (case called (CallUserAuthenticate username password) (UserAuthenticate D username password) s1 of
        ((authenticated, Some err), s2) \<Rightarrow> respondAndLogError w err s2
      | ((authenticated, None), s2) \<Rightarrow>
      (if \<not> authenticated
       then (http_Error w ''Forbidden'' 403, s2)
       else
      (case called (CallTokenGenerate username (10 * time_Minute))
              (TokenGenerate D username (10 * time_Minute)) s2 of
        ((token, Some err), s3) \<Rightarrow> respondAndLogError w err s3
      | ((token, None), s3) \<Rightarrow> (Write (encodeToken J token @ [CHR 0x0A]) w, s3))))))))"

section \<open>Health probe\<close>

definition healthy_false :: string where
  \<open>healthy_false = ''{"healthy":false}''\<close>

definition healthy_true :: string where
  \<open>healthy_true = ''{"healthy":true}''\<close>

text \<open>
  \<^verbatim>\<open>handleHealthz\<close>. \<open>testUsername\<close> and \<open>testPassword\<close> are the strings that the two
  calls of \<^verbatim>\<open>data.HashPassword\<close> return (their errors are dropped); slicing the first
  eight bytes of a shorter string panics. The deferred \<^verbatim>\<open>UserDelete\<close> runs after the
  body is written and its result is dropped.
\<close>

definition handleHealthz :: "'s DataAccess \<Rightarrow> string \<Rightarrow> string \<Rightarrow> 's Handler" where
  "handleHealthz D testUsername testPassword w r s =
     (if length testUsername < 8 then Panics (w, s)
      else
      let testUser = \<lparr>Email = ''healthz@test.user'', FullName = ''Health Check User'',
                      Password = testPassword, Username = ''healthz'' @ take 8 testUsername\<rparr> in
      case called (CallUserCreate testUser) (UserCreate D testUser) s of
        (Some err, s1) \<Rightarrow>
          Returns (http_Error w healthy_false 503,
                   log_write WarnLevel [ErrorField err] ''health check failure'' s1)
      | (None, s1) \<Rightarrow>
          (let s2 = log_write TraceLevel [] ''health check pass'' s1;
               w1 = Write (healthy_true @ [CHR 0x0A]) w;
               (dropped, s3) = called (CallUserDelete (Username testUser))
                                 (UserDelete D (Username testUser)) s2
           in Returns (w1, s3)))"

section \<open>Middleware\<close>

definition exemptEndpoints :: "string \<rightharpoonup> bool" where
  "exemptEndpoints = map_of
     [(''/v2/authenticate'', True), (''/v2/bootstrap'', True),
      (''/v2/healthz'', True), (''/v2/metrics'', True)]"

text \<open>Indexing a Go map of booleans: \<^verbatim>\<open>false\<close> for a key that is not there.\<close>

definition index_bool :: "(string \<rightharpoonup> bool) \<Rightarrow> string \<Rightarrow> bool" where
  "index_bool m k = (case m k of None \<Rightarrow> False | Some b \<Rightarrow> b)"

definition tokenObservingMiddleware :: "'s DataAccess \<Rightarrow> 's Handler \<Rightarrow> 's Handler" where
  "tokenObservingMiddleware D next w r s =
     (let requestURI = hd (strings_Split (RequestURI r) (CHR ''?'')) in
      if index_bool exemptEndpoints requestURI then next w r s
      else
      let s1 = Commit (TotalRequests (RequestURI r) (hd (strings_Split (RemoteAddr r) (CHR '':'')))) s;
          token = Header_Get r ''X-Session-Token'';
          (valid, s2) = (if token = [] then (False, s1)
                         else called (CallTokenEvaluate token) (TokenEvaluate D token) s1)
      in if token = [] \<or> \<not> valid
         then Returns (http_Error w ''Unauthorized'' 401,
                Commit (UnauthorizedRequests (RequestURI r) (hd (strings_Split (RemoteAddr r) (CHR '':'')))) s2)
         else next w r s2)"

text \<open>
  The two cells of the middleware, read back from the writer it handed down. A writer
  that is no capture writer has never written to them, so they hold their initial values.
\<close>

fun status_cell :: "ResponseWriter \<Rightarrow> int" where
  "status_cell (StatusCaptureWriter w st by) = st"
| "status_cell (Sink p) = 200"

fun bytes_cell :: "ResponseWriter \<Rightarrow> int" where
  "bytes_cell (StatusCaptureWriter w st by) = by"
| "bytes_cell (Sink p) = 0"

fun embedded :: "ResponseWriter \<Rightarrow> ResponseWriter" where
  "embedded (StatusCaptureWriter w st by) = w"
| "embedded (Sink p) = Sink p"

text \<open>
  \<^verbatim>\<open>buildLoggingMiddleware(logsous)(next)\<close>; the channel \<^verbatim>\<open>logsous\<close> is the field
  \<open>requests\<close> of the state. Nothing after \<^verbatim>\<open>next.ServeHTTP\<close> is deferred, so a panic
  of \<open>next\<close> leaves the function at once.
\<close>

definition buildLoggingMiddleware :: "'s DataAccess \<Rightarrow> 's Handler \<Rightarrow> 's Handler" where
  "buildLoggingMiddleware D next w r s =
     (case next (StatusCaptureWriter w 200 0) r s of
        Panics (cw, s1) \<Rightarrow> Panics (embedded cw, s1)
      | Returns (cw, s1) \<Rightarrow>
          (let tokenString = Header_Get r ''X-Session-Token'';
               (userID, s2) =
                  (if tokenString \<noteq> []
                   then (case called (CallTokenRetrieveByToken tokenString)
                                (TokenRetrieveByToken D tokenString) s1 of
                           ((token, dropped), s') \<Rightarrow> (User token, s'))
                   else (''-'', s1));
               requestLine = Method r @ '' '' @ RequestURI r @ '' '' @ Proto r;
               e = \<lparr>Addr = RemoteAddr r, UserID = userID, Timestamp = clock s2,
                    Request = requestLine, Status = status_cell cw, Size = bytes_cell cw\<rparr>
           in Returns (embedded cw, s2\<lparr>requests := requests s2 @ [e]\<rparr>)))"

section \<open>The specification's vocabulary\<close>

subsection \<open>The error taxonomy\<close>

text \<open>
  The tag classes of the taxonomy table with the status of each row, and the class that
  each package-level error value belongs to. An error is classified by the first row of
  the table that one of the values found in it belongs to.
\<close>

datatype tag =
    EmptyField | NotFound | Forbidden | AlreadyExists | NotImplemented
  | StorageFailure | MalformedPayload | Unclassified

fun taxonomy_status :: "tag \<Rightarrow> int" where
  "taxonomy_status EmptyField = 417"
| "taxonomy_status NotFound = 404"
| "taxonomy_status Forbidden = 403"
| "taxonomy_status AlreadyExists = 409"
| "taxonomy_status NotImplemented = 501"
| "taxonomy_status StorageFailure = 500"
| "taxonomy_status MalformedPayload = 406"
| "taxonomy_status Unclassified = 500"

fun tag_of :: "sentinel \<Rightarrow> tag" where
  "tag_of ErrEmptyBundleName = EmptyField"
| "tag_of ErrEmptyBundleVersion = EmptyField"
| "tag_of ErrEmptyGroupName = EmptyField"
| "tag_of ErrEmptyUserName = EmptyField"
| "tag_of ErrMissingValue = EmptyField"
| "tag_of ErrFieldRequired = EmptyField"
| "tag_of ErrNoSuchBundle = NotFound"
| "tag_of ErrNoSuchGroup = NotFound"
| "tag_of ErrNoSuchToken = NotFound"
| "tag_of ErrNoSuchUser = NotFound"
| "tag_of ErrAdminUndeletable = Forbidden"
| "tag_of ErrBundleExists = AlreadyExists"
| "tag_of ErrGroupExists = AlreadyExists"
| "tag_of ErrUserExists = AlreadyExists"
| "tag_of ErrNotImplemented = NotImplemented"
| "tag_of ErrDataAccessNotInitialized = StorageFailure"
| "tag_of ErrDataAccessCantInitialize = StorageFailure"
| "tag_of ErrDataAccessCantConnect = StorageFailure"
| "tag_of ErrDataAccess = StorageFailure"
| "tag_of ErrUnmarshal = MalformedPayload"

definition has_tag :: "error \<Rightarrow> tag \<Rightarrow> bool" where
  "has_tag err t = list_ex (\<lambda>x. tag_of x = t) (matches err)"

definition classify :: "error \<Rightarrow> tag" where
  "classify err =
     (case find (has_tag err)
        [EmptyField, NotFound, Forbidden, AlreadyExists, NotImplemented, StorageFailure, MalformedPayload]
      of Some t \<Rightarrow> t | None \<Rightarrow> Unclassified)"

definition public_message :: "error \<Rightarrow> string" where
  "public_message err =
     (if classify err = MalformedPayload then ''Corrupt JSON payload'' else Error err)"

subsection \<open>What a handler chain does to its writer\<close>

text \<open>
  The calls a handler chain makes on the writer it is given, in order; running them on a
  writer is what the chain does to the response.
\<close>

datatype writer_call = SetHeader string string | DoWriteHeader int | DoWrite string

fun apply_call :: "writer_call \<Rightarrow> ResponseWriter \<Rightarrow> ResponseWriter" where
  "apply_call (SetHeader k v) w = Header_Set k v w"
| "apply_call (DoWriteHeader code) w = WriteHeader code w"
| "apply_call (DoWrite bs) w = Write bs w"

primrec run_calls :: "writer_call list \<Rightarrow> ResponseWriter \<Rightarrow> ResponseWriter" where
  "run_calls [] w = w"
| "run_calls (c # cs) w = run_calls cs (apply_call c w)"

fun is_WriteHeader :: "writer_call \<Rightarrow> bool" where
  "is_WriteHeader (DoWriteHeader code) = True"
| "is_WriteHeader (SetHeader k v) = False"
| "is_WriteHeader (DoWrite bs) = False"

text \<open>The status is set at most once, and not after the first byte of the body.\<close>

fun header_once :: "writer_call list \<Rightarrow> bool" where
  "header_once [] = True"
| "header_once (SetHeader k v # cs) = header_once cs"
| "header_once (DoWriteHeader code # cs) = (\<not> list_ex is_WriteHeader cs)"
| "header_once (DoWrite bs # cs) = (\<not> list_ex is_WriteHeader cs)"

text \<open>
  What the two cells of a capture writer hold after a sequence of calls: the argument of
  the last \<^verbatim>\<open>WriteHeader\<close> and the length of the last \<^verbatim>\<open>Write\<close>, or what they
  held before when there was no such call.
\<close>

fun recorded_status :: "int \<Rightarrow> writer_call list \<Rightarrow> int" where
  "recorded_status st [] = st"
| "recorded_status st (DoWriteHeader code # cs) = recorded_status code cs"
| "recorded_status st (SetHeader k v # cs) = recorded_status st cs"
| "recorded_status st (DoWrite bs # cs) = recorded_status st cs"

fun recorded_bytes :: "int \<Rightarrow> writer_call list \<Rightarrow> int" where
  "recorded_bytes n [] = n"
| "recorded_bytes n (DoWrite bs # cs) = recorded_bytes (int (length bs)) cs"
| "recorded_bytes n (SetHeader k v # cs) = recorded_bytes n cs"
| "recorded_bytes n (DoWriteHeader code # cs) = recorded_bytes n cs"

subsection \<open>The bootstrap sequence\<close>

text \<open>
  The steps of the bootstrap in the order the specification lists them, and a runner that
  makes the calls one after the other and stops at the first that fails.
\<close>

definition bootstrap_steps :: "rest_User \<Rightarrow> dal_call list" where
  "bootstrap_steps user =
     [CallUserCreate user,
      CallGroupCreate \<lparr>Name = ''admin''\<rparr>,
      CallGroupAddUser ''admin'' (Username user),
      CallRoleCreate ''admin'',
      CallGroupGrantRole ''admin'' ''admin'',
      CallRoleGrantPermission ''admin'' ''gort'' ''manage_commands'',
      CallRoleGrantPermission ''admin'' ''gort'' ''manage_groups'',
      CallRoleGrantPermission ''admin'' ''gort'' ''manage_roles'',
      CallRoleGrantPermission ''admin'' ''gort'' ''manage_users'']"

fun perform :: "'s DataAccess \<Rightarrow> dal_call \<Rightarrow> 's \<Rightarrow> error option \<times> 's" where
  "perform D (CallUserExists name) = (\<lambda>st. case UserExists D name st of ((b, e), st1) \<Rightarrow> (e, st1))"
| "perform D (CallUserAuthenticate name pw) =
     (\<lambda>st. case UserAuthenticate D name pw st of ((b, e), st1) \<Rightarrow> (e, st1))"
| "perform D (CallUserCreate user) = UserCreate D user"
| "perform D (CallUserDelete name) = UserDelete D name"
| "perform D CallUserList = (\<lambda>st. case UserList D st of ((us, e), st1) \<Rightarrow> (e, st1))"
| "perform D (CallTokenGenerate name ttl) =
     (\<lambda>st. case TokenGenerate D name ttl st of ((t, e), st1) \<Rightarrow> (e, st1))"
| "perform D (CallTokenEvaluate tok) = (\<lambda>st. case TokenEvaluate D tok st of (b, st1) \<Rightarrow> (None, st1))"
| "perform D (CallTokenRetrieveByToken tok) =
     (\<lambda>st. case TokenRetrieveByToken D tok st of ((t, e), st1) \<Rightarrow> (e, st1))"
| "perform D (CallGroupCreate g) = GroupCreate D g"
| "perform D (CallGroupAddUser g name) = GroupAddUser D g name"
| "perform D (CallGroupGrantRole g role) = GroupGrantRole D g role"
| "perform D (CallRoleCreate role) = RoleCreate D role"
| "perform D (CallRoleGrantPermission role bundle p) = RoleGrantPermission D role bundle p"

fun run_steps :: "'s DataAccess \<Rightarrow> dal_call list \<Rightarrow> 's world \<Rightarrow> error option \<times> 's world" where
  "run_steps D [] s = (None, s)"
| "run_steps D (c # cs) s =
     (case called c (perform D c) s of
        (Some err, s1) \<Rightarrow> (Some err, s1)
      | (None, s1) \<Rightarrow> run_steps D cs s1)"

section \<open>A data access layer in memory\<close>

text \<open>
  A small data access layer to run the handlers on: its state is the list of users; the
  token of a user is \<^verbatim>\<open>token-\<close> followed by the user's name; groups and roles accept
  everything.
\<close>

definition zeroToken :: rest_Token where
  "zeroToken = \<lparr>Token = [], User = []\<rparr>"

definition zeroUser :: rest_User where
  "zeroUser = \<lparr>Email = [], FullName = [], Password = [], Username = []\<rparr>"

definition memDAL :: "rest_User list DataAccess" where
  "memDAL =
     \<lparr>UserExists = (\<lambda>name us. ((list_ex (\<lambda>u. Username u = name) us, None), us)),
      UserAuthenticate =
        (\<lambda>name pw us. ((list_ex (\<lambda>u. Username u = name \<and> Password u = pw) us, None), us)),
      UserCreate =
        (\<lambda>user us. if list_ex (\<lambda>u. Username u = Username user) us
                    then (Some (GoError [ErrUserExists] ''user already exists''), us)
                    else (None, us @ [user])),
      UserDelete = (\<lambda>name us. (None, filter (\<lambda>u. Username u \<noteq> name) us)),
      UserList = (\<lambda>us. ((us, None), us)),
      TokenGenerate = (\<lambda>name ttl us. ((\<lparr>Token = ''token-'' @ name, User = name\<rparr>, None), us)),
      TokenEvaluate = (\<lambda>tok us. (list_ex (\<lambda>u. ''token-'' @ Username u = tok) us, us)),
      TokenRetrieveByToken =
        (\<lambda>tok us. (case find (\<lambda>u. ''token-'' @ Username u = tok) us of
                      Some u \<Rightarrow> (\<lparr>Token = tok, User = Username u\<rparr>, None)
                    | None \<Rightarrow> (zeroToken, Some (GoError [ErrNoSuchToken] ''no such token'')),
                    us)),
      GroupCreate = (\<lambda>g us. (None, us)),
      GroupAddUser = (\<lambda>g name us. (None, us)),
      GroupGrantRole = (\<lambda>g role us. (None, us)),
      RoleCreate = (\<lambda>role us. (None, us)),
      RoleGrantPermission = (\<lambda>role bundle p us. (None, us))\<rparr>"

text \<open>A decoder that knows the empty object only, and encoders that print the name.\<close>

definition memJSON :: json where
  "memJSON =
     \<lparr>decodeUser = (\<lambda>bs. if bs = ''{}'' then Some zeroUser else None),
      encodeUser = (\<lambda>u. Username u),
      encodeToken = (\<lambda>t. Token t)\<rparr>"

definition started :: "rest_User list \<Rightarrow> rest_User list world" where
  "started us = \<lparr>store = us, calls = [], logs = [], telemetry = [], requests = [], clock = 0\<rparr>"

definition request :: "string \<Rightarrow> string \<Rightarrow> (string \<times> string list) list \<Rightarrow> string \<Rightarrow> Request" where
  "request m uri h b =
     \<lparr>Method = m, RequestURI = uri, Proto = ''HTTP/1.1'', RemoteAddr = ''10.0.0.7:4711'',
      Header = h, Body = b\<rparr>"

text \<open>Two handlers to stand behind the middleware: one writes a body, one panics at once.\<close>

definition listUsers :: "'s Handler" where
  "listUsers w r s = Returns (Write ''users'' w, s)"

definition panicking :: "'s Handler" where
  "panicking w r s = Panics (w, s)"

definition root :: rest_User where
  "root = \<lparr>Email = ''root@localhost'', FullName = ''Root'', Password = ''secret'', Username = ''root''\<rparr>"

section \<open>The response through a stack of writers\<close>

lemma sink_of_Header_Set [simp]: "sink_of (Header_Set k v w) = resp_Header_Set k v (sink_of w)"
  by (induction w) simp_all

lemma sink_of_WriteHeader [simp]: "sink_of (WriteHeader c w) = resp_WriteHeader c (sink_of w)"
  by (induction w) simp_all

lemma sink_of_Write [simp]: "sink_of (Write bs w) = resp_Write bs (sink_of w)"
  by (induction w) simp_all

lemma http_Error_sent:
  "sent (sink_of w) = None \<Longrightarrow> sent (sink_of (http_Error w msg code)) = Some code"
  by (simp add: http_Error_def resp_Write_def resp_WriteHeader_def resp_Header_Set_def Let_def)

lemma http_Error_body:
  "sent (sink_of w) = None \<Longrightarrow> body (sink_of (http_Error w msg code)) = body (sink_of w) @ msg @ [CHR 0x0A]"
  by (simp add: http_Error_def resp_Write_def resp_WriteHeader_def resp_Header_Set_def Let_def)

section \<open>The error mapper is total and follows the taxonomy\<close>

lemma has_tag_iff: "has_tag err t \<longleftrightarrow> (\<exists>x. gerrs_Is err x \<and> tag_of x = t)"
  by (auto simp: has_tag_def gerrs_Is_def list_ex_iff)

lemma tag_of_EmptyField:
  "tag_of x = EmptyField \<longleftrightarrow> x \<in> {ErrEmptyBundleName, ErrEmptyBundleVersion, ErrEmptyGroupName,
     ErrEmptyUserName, ErrMissingValue, ErrFieldRequired}"
  by (cases x) simp_all

lemma tag_of_NotFound:
  "tag_of x = NotFound \<longleftrightarrow> x \<in> {ErrNoSuchBundle, ErrNoSuchGroup, ErrNoSuchToken, ErrNoSuchUser}"
  by (cases x) simp_all

lemma tag_of_Forbidden: "tag_of x = Forbidden \<longleftrightarrow> x = ErrAdminUndeletable"
  by (cases x) simp_all

lemma tag_of_AlreadyExists:
  "tag_of x = AlreadyExists \<longleftrightarrow> x \<in> {ErrBundleExists, ErrGroupExists, ErrUserExists}"
  by (cases x) simp_all

lemma tag_of_NotImplemented: "tag_of x = NotImplemented \<longleftrightarrow> x = ErrNotImplemented"
  by (cases x) simp_all

lemma tag_of_StorageFailure:
  "tag_of x = StorageFailure \<longleftrightarrow> x \<in> {ErrDataAccessNotInitialized, ErrDataAccessCantInitialize,
     ErrDataAccessCantConnect, ErrDataAccess}"
  by (cases x) simp_all

lemma tag_of_MalformedPayload: "tag_of x = MalformedPayload \<longleftrightarrow> x = ErrUnmarshal"
  by (cases x) simp_all

lemma has_tag_EmptyField:
  "has_tag err EmptyField \<longleftrightarrow> gerrs_Is err ErrEmptyBundleName \<or> gerrs_Is err ErrEmptyBundleVersion
         \<or> gerrs_Is err ErrEmptyGroupName \<or> gerrs_Is err ErrEmptyUserName
         \<or> gerrs_Is err ErrMissingValue \<or> gerrs_Is err ErrFieldRequired"
  unfolding has_tag_iff tag_of_EmptyField by blast

lemma has_tag_NotFound:
  "has_tag err NotFound \<longleftrightarrow> gerrs_Is err ErrNoSuchBundle \<or> gerrs_Is err ErrNoSuchGroup
         \<or> gerrs_Is err ErrNoSuchToken \<or> gerrs_Is err ErrNoSuchUser"
  unfolding has_tag_iff tag_of_NotFound by blast

lemma has_tag_Forbidden: "has_tag err Forbidden \<longleftrightarrow> gerrs_Is err ErrAdminUndeletable"
  unfolding has_tag_iff tag_of_Forbidden by blast

lemma has_tag_AlreadyExists:
  "has_tag err AlreadyExists \<longleftrightarrow> gerrs_Is err ErrBundleExists \<or> gerrs_Is err ErrGroupExists
         \<or> gerrs_Is err ErrUserExists"
  unfolding has_tag_iff tag_of_AlreadyExists by blast

lemma has_tag_NotImplemented: "has_tag err NotImplemented \<longleftrightarrow> gerrs_Is err ErrNotImplemented"
  unfolding has_tag_iff tag_of_NotImplemented by blast

lemma has_tag_StorageFailure:
  "has_tag err StorageFailure \<longleftrightarrow> gerrs_Is err ErrDataAccessNotInitialized
         \<or> gerrs_Is err ErrDataAccessCantInitialize
         \<or> gerrs_Is err ErrDataAccessCantConnect \<or> gerrs_Is err ErrDataAccess"
  unfolding has_tag_iff tag_of_StorageFailure by blast

lemma has_tag_MalformedPayload: "has_tag err MalformedPayload \<longleftrightarrow> gerrs_Is err ErrUnmarshal"
  unfolding has_tag_iff tag_of_MalformedPayload by blast

lemmas has_tag_unfold = has_tag_EmptyField has_tag_NotFound has_tag_Forbidden
  has_tag_AlreadyExists has_tag_NotImplemented has_tag_StorageFailure has_tag_MalformedPayload

lemma respondAndLogError_classified:
  "respondAndLogError w err s =
     (http_Error w (public_message err) (taxonomy_status (classify err)),
      (case classify err of
         StorageFailure \<Rightarrow> log_write ErrorLevel [StatusField 500] (Error err) s
       | Unclassified \<Rightarrow>
           log_write ErrorLevel [ErrorField err, StatusField 500] (Error err)
             (Commit (Errors err) (log_write WarnLevel [ErrorField err] ''Unhandled server error'' s))
       | _ \<Rightarrow> s))"
  unfolding respondAndLogError_def public_message_def classify_def
  by (simp add: has_tag_unfold Let_def)


lemma classify_single: "classify (GoError [x] m) = tag_of x"
  by (cases x) (simp_all add: classify_def has_tag_def)

text \<open>
  Claim C3. \<^verbatim>\<open>respondAndLogError\<close> answers every error with exactly one
  \<^verbatim>\<open>http.Error\<close>: the status is the one of the error's row in the taxonomy table
  (417 empty or missing field, 404 not found, 403 forbidden, 409 already exists, 501 not
  implemented, 500 data access, 406 malformed payload, 500 unclassified), the message is
  the error's own text except for a malformed payload, where it is the fixed text
  \<^verbatim>\<open>Corrupt JSON payload\<close>; a data access error adds one error entry to the log, an
  unclassified error adds a warning, a telemetry event and an error entry, and every
  other class leaves log and telemetry alone. On a response that nothing has been written
  to, that status and that message followed by a newline are what the caller receives.
\<close>

theorem respondAndLogError_taxonomy:
  "fst (respondAndLogError w err s)
     = http_Error w (public_message err) (taxonomy_status (classify err))
   \<and> snd (respondAndLogError w err s)
     = (case classify err of
          StorageFailure \<Rightarrow> log_write ErrorLevel [StatusField 500] (Error err) s
        | Unclassified \<Rightarrow>
            log_write ErrorLevel [ErrorField err, StatusField 500] (Error err)
              (Commit (Errors err) (log_write WarnLevel [ErrorField err] ''Unhandled server error'' s))
        | _ \<Rightarrow> s)
   \<and> (sent (sink_of w) = None \<longrightarrow>
        sent (sink_of (fst (respondAndLogError w err s))) = Some (taxonomy_status (classify err))
      \<and> body (sink_of (fst (respondAndLogError w err s)))
          = body (sink_of w) @ public_message err @ [CHR 0x0A])"
proof (intro conjI impI)
  show answer: "fst (respondAndLogError w err s)
     = http_Error w (public_message err) (taxonomy_status (classify err))"
    by (simp add: respondAndLogError_classified)
  show "snd (respondAndLogError w err s)
     = (case classify err of
          StorageFailure \<Rightarrow> log_write ErrorLevel [StatusField 500] (Error err) s
        | Unclassified \<Rightarrow>
            log_write ErrorLevel [ErrorField err, StatusField 500] (Error err)
              (Commit (Errors err) (log_write WarnLevel [ErrorField err] ''Unhandled server error'' s))
        | _ \<Rightarrow> s)"
    by (simp add: respondAndLogError_classified)
  assume untouched: "sent (sink_of w) = None"
  then show "sent (sink_of (fst (respondAndLogError w err s))) = Some (taxonomy_status (classify err))"
    unfolding answer by (rule http_Error_sent)
  from untouched show "body (sink_of (fst (respondAndLogError w err s)))
          = body (sink_of w) @ public_message err @ [CHR 0x0A]"
    unfolding answer by (rule http_Error_body)
qed

theorem respondAndLogError_taxonomy_witness:
  "sent (sink_of (Sink fresh)) = None
   \<and> sent (sink_of (fst (respondAndLogError (Sink fresh) (GoError [ErrNoSuchUser] ''no such user'') (started []))))
       = Some 404
   \<and> body (sink_of (fst (respondAndLogError (Sink fresh) (GoError [ErrNoSuchUser] ''no such user'') (started []))))
       = ''no such user'' @ [CHR 0x0A]
   \<and> snd (respondAndLogError (Sink fresh) (GoError [ErrNoSuchUser] ''no such user'') (started [])) = started []"
  using respondAndLogError_taxonomy [of "Sink fresh" "GoError [ErrNoSuchUser] ''no such user''" "started []"]
  by (simp add: classify_single public_message_def fresh_def http_Error_sent http_Error_body)

section \<open>The authentication middleware\<close>

lemma strings_Split_not_Nil: "strings_Split s sep \<noteq> []"
  by (induction s) (auto split: list.splits)

lemma hd_strings_Split: "hd (strings_Split s sep) = takeWhile (\<lambda>c. c \<noteq> sep) s"
  by (induction s) (auto split: list.splits simp: strings_Split_not_Nil)

lemma exempt_iff:
  "index_bool exemptEndpoints p \<longleftrightarrow>
     p \<in> {''/v2/authenticate'', ''/v2/bootstrap'', ''/v2/healthz'', ''/v2/metrics''}"
  by (simp add: index_bool_def exemptEndpoints_def)

lemma final_status_http_Error:
  "sent (sink_of w) = None \<Longrightarrow> final_status (sink_of (http_Error w msg code)) = code"
  by (simp add: final_status_def http_Error_sent)

text \<open>
  Claim C1. A request whose path, cut at the first question mark, is none of the four
  exempt endpoints, and whose \<^verbatim>\<open>X-Session-Token\<close> header is absent or empty or is
  refused by \<^verbatim>\<open>TokenEvaluate\<close>, is answered by \<^verbatim>\<open>http.Error(w, "Unauthorized", 401)\<close>
  and nothing else is written; the middleware counts the request as a total and as an
  unauthorized one; the result is the same whatever the next handler is, so the next
  handler is not invoked; on a response that nothing has been written to, the status the
  caller reads is 401.
\<close>

theorem tokenObservingMiddleware_rejects:
  assumes "takeWhile (\<lambda>c. c \<noteq> CHR ''?'') (RequestURI r)
             \<notin> {''/v2/authenticate'', ''/v2/bootstrap'', ''/v2/healthz'', ''/v2/metrics''}"
    and "Header_Get r ''X-Session-Token'' = []
           \<or> \<not> fst (TokenEvaluate D (Header_Get r ''X-Session-Token'') (store s))"
  shows "(\<exists>s'. tokenObservingMiddleware D next w r s = Returns (http_Error w ''Unauthorized'' 401, s')
            \<and> telemetry s' = telemetry s
                 @ [TotalRequests (RequestURI r) (takeWhile (\<lambda>c. c \<noteq> CHR '':'') (RemoteAddr r)),
                    UnauthorizedRequests (RequestURI r) (takeWhile (\<lambda>c. c \<noteq> CHR '':'') (RemoteAddr r))])
         \<and> tokenObservingMiddleware D next w r s = tokenObservingMiddleware D next' w r s
         \<and> (sent (sink_of w) = None \<longrightarrow>
               final_status (sink_of (http_Error w ''Unauthorized'' 401)) = 401)"
  using assms
  by (auto simp: tokenObservingMiddleware_def hd_strings_Split exempt_iff Let_def called_def
        Commit_def final_status_http_Error split: prod.splits)

theorem tokenObservingMiddleware_rejects_witness:
  "takeWhile (\<lambda>c. c \<noteq> CHR ''?'') (RequestURI (request ''GET'' ''/v2/users?limit=5'' [] []))
      \<notin> {''/v2/authenticate'', ''/v2/bootstrap'', ''/v2/healthz'', ''/v2/metrics''}
   \<and> Header_Get (request ''GET'' ''/v2/users?limit=5'' [] []) ''X-Session-Token'' = []
   \<and> (\<exists>s'. tokenObservingMiddleware memDAL listUsers (Sink fresh)
               (request ''GET'' ''/v2/users?limit=5'' [] []) (started [root])
             = Returns (http_Error (Sink fresh) ''Unauthorized'' 401, s'))
   \<and> final_status (sink_of (http_Error (Sink fresh) ''Unauthorized'' 401)) = 401"
proof -
  let ?r = "request ''GET'' ''/v2/users?limit=5'' [] []"
  have path: "takeWhile (\<lambda>c. c \<noteq> CHR ''?'') (RequestURI ?r)
      \<notin> {''/v2/authenticate'', ''/v2/bootstrap'', ''/v2/healthz'', ''/v2/metrics''}"
    by (simp add: request_def)
  have token: "Header_Get ?r ''X-Session-Token'' = []"
    by (simp add: request_def Header_Get_def)
  have untouched: "sent (sink_of (Sink fresh)) = None"
    by (simp add: fresh_def)
  from tokenObservingMiddleware_rejects [OF path disjI1 [OF token],
      of memDAL listUsers "Sink fresh" "started [root]"]
    path token untouched
  show ?thesis by blast
qed

text \<open>
  Claim C2. A request whose path, cut at the first question mark, is one of the four
  exempt endpoints is handed to the next handler with the writer and the state exactly as
  they came in: the middleware makes no call on the data access layer (so none of
  \<^verbatim>\<open>TokenEvaluate\<close>), writes nothing (so no 401) and does not read the token header;
  whatever is answered is the next handler's answer.
\<close>

theorem tokenObservingMiddleware_exempt:
  assumes "takeWhile (\<lambda>c. c \<noteq> CHR ''?'') (RequestURI r)
             \<in> {''/v2/authenticate'', ''/v2/bootstrap'', ''/v2/healthz'', ''/v2/metrics''}"
  shows "tokenObservingMiddleware D next w r s = next w r s"
  using assms
  by (simp add: tokenObservingMiddleware_def hd_strings_Split exempt_iff Let_def)

theorem tokenObservingMiddleware_exempt_witness:
  "takeWhile (\<lambda>c. c \<noteq> CHR ''?'') (RequestURI (request ''GET'' ''/v2/healthz?probe=1'' [] []))
      \<in> {''/v2/authenticate'', ''/v2/bootstrap'', ''/v2/healthz'', ''/v2/metrics''}
   \<and> tokenObservingMiddleware memDAL listUsers (Sink fresh)
        (request ''GET'' ''/v2/healthz?probe=1'' [] []) (started [])
      = Returns (Sink \<lparr>headers = [], sent = Some 200, body = ''users''\<rparr>, started [])"
  using tokenObservingMiddleware_exempt [of "request ''GET'' ''/v2/healthz?probe=1'' [] []"
     memDAL listUsers "Sink fresh" "started []"]
  by (simp add: request_def fresh_def resp_Write_def resp_WriteHeader_def listUsers_def)

section \<open>Bootstrap runs once and in order\<close>

lemma grantPermissions_run_steps:
  "grantPermissions D role ps s = run_steps D (map (CallRoleGrantPermission role ''gort'') ps) s"
  by (induction ps arbitrary: s) (auto split: prod.splits option.splits)

lemma run_steps_calls_ok: "run_steps D cs s = (None, s') \<Longrightarrow> calls s' = calls s @ cs"
  by (induction cs arbitrary: s) (auto simp: called_def split: prod.splits option.splits)

lemma run_steps_calls_failed:
  "run_steps D cs s = (Some err, s') \<Longrightarrow> \<exists>n<length cs. calls s' = calls s @ take (Suc n) cs"
proof (induction cs arbitrary: s)
  case Nil
  then show ?case by simp
next
  case (Cons c cs)
  obtain out s1 where step: "called c (perform D c) s = (out, s1)"
    by (cases "called c (perform D c) s")
  have s1: "calls s1 = calls s @ [c]"
    using step by (auto simp: called_def split: prod.splits)
  show ?case
  proof (cases out)
    case None
    with Cons.prems step have "run_steps D cs s1 = (Some err, s')" by simp
    from Cons.IH [OF this] obtain n where "n < length cs" "calls s' = calls s1 @ take (Suc n) cs"
      by blast
    with s1 have "Suc n < length (c # cs)" "calls s' = calls s @ take (Suc (Suc n)) (c # cs)"
      by simp_all
    then show ?thesis by blast
  next
    case (Some e)
    with Cons.prems step have "s' = s1" by simp
    with s1 have "calls s' = calls s @ take (Suc 0) (c # cs)" by simp
    then show ?thesis by (intro exI [of _ 0]) simp
  qed
qed

lemma calls_respondAndLogError [simp]: "calls (snd (respondAndLogError w err s)) = calls s"
  by (simp add: respondAndLogError_classified log_write_def Commit_def split: tag.splits)

lemma handleBootstrap_steps:
  assumes "UserList D (store s) = (([], None), st)"
    and "decodeUser J (Body r) = Some decoded"
    and "bootstrapUserWithDefaults gen decoded = (user, None)"
  shows "handleBootstrap D J gen w r s =
     (case run_steps D (bootstrap_steps user) (s\<lparr>store := st, calls := calls s @ [CallUserList]\<rparr>) of
        (Some err, s') \<Rightarrow> respondAndLogError w err s'
      | (None, s') \<Rightarrow> (Write (encodeUser J user @ [CHR 0x0A]) w, s'))"
proof -
  have grants: "bootstrap_steps user =
      [CallUserCreate user, CallGroupCreate \<lparr>Name = ''admin''\<rparr>,
       CallGroupAddUser ''admin'' (Username user), CallRoleCreate ''admin'',
       CallGroupGrantRole ''admin'' ''admin'']
      @ map (CallRoleGrantPermission ''admin'' ''gort'') adminPermissions"
    by (simp add: bootstrap_steps_def adminPermissions_def)
  show ?thesis
    unfolding handleBootstrap_def grants grantPermissions_run_steps
    using assms
    by (simp add: called_def Let_def split: prod.splits option.splits)
qed

lemma bootstrapUserWithDefaults_fields:
  assumes "bootstrapUserWithDefaults gen decoded = (user, gerr)"
  shows "Username user = ''admin''"
    and "Email user = (if Email decoded = [] then ''gort@localhost'' else Email decoded)"
    and "FullName user = (if FullName decoded = [] then ''Gort Administrator'' else FullName decoded)"
    and "gerr = None \<Longrightarrow> Password user = (if Password decoded = [] then fst gen else Password decoded)"
    and "gerr \<noteq> None \<Longrightarrow> Password decoded = [] \<and> gerr = snd gen"
  using assms
  by (auto simp: bootstrapUserWithDefaults_def Let_def split: if_splits prod.splits option.splits)

lemma resp_Write_untouched:
  "sent p = None \<Longrightarrow> sent (resp_Write bs p) = Some 200 \<and> body (resp_Write bs p) = body p @ bs"
  by (simp add: resp_Write_def resp_WriteHeader_def Let_def)

text \<open>
  Claim C4. When \<^verbatim>\<open>UserList\<close> reports at least one user, \<^verbatim>\<open>handleBootstrap\<close>
  answers \<^verbatim>\<open>http.Error(w, "Service already bootstrapped", 409)\<close>, logs one warning and
  makes no call on the data access layer besides that \<^verbatim>\<open>UserList\<close>: no create, add or
  grant. The answer mentions neither the request nor the decoder nor the token generator,
  so it is the same for every payload, a malformed one included. On a response that
  nothing has been written to, the status the caller reads is 409.
\<close>

theorem handleBootstrap_already_bootstrapped:
  assumes "UserList D (store s) = ((users, None), st)" and "users \<noteq> []"
  shows "handleBootstrap D J gen w r s =
           (http_Error w ''Service already bootstrapped'' 409,
            log_write WarnLevel [] ''Re-bootstrap attempted''
              (s\<lparr>store := st, calls := calls s @ [CallUserList]\<rparr>))
         \<and> calls (snd (handleBootstrap D J gen w r s)) = calls s @ [CallUserList]
         \<and> (sent (sink_of w) = None \<longrightarrow>
               final_status (sink_of (fst (handleBootstrap D J gen w r s))) = 409)"
  using assms
  by (simp add: handleBootstrap_def called_def Let_def log_write_def final_status_http_Error)

theorem handleBootstrap_already_bootstrapped_witness:
  "UserList memDAL (store (started [root])) = (([root], None), [root]) \<and> [root] \<noteq> []
   \<and> decodeUser memJSON (Body (request ''POST'' ''/v2/bootstrap'' [] ''{'')) = None
   \<and> fst (handleBootstrap memDAL memJSON ([], None) (Sink fresh)
            (request ''POST'' ''/v2/bootstrap'' [] ''{'') (started [root]))
       = http_Error (Sink fresh) ''Service already bootstrapped'' 409
   \<and> calls (snd (handleBootstrap memDAL memJSON ([], None) (Sink fresh)
            (request ''POST'' ''/v2/bootstrap'' [] ''{'') (started [root])))
       = [CallUserList]
   \<and> final_status (sink_of (fst (handleBootstrap memDAL memJSON ([], None) (Sink fresh)
            (request ''POST'' ''/v2/bootstrap'' [] ''{'') (started [root])))) = 409"
proof -
  have listed: "UserList memDAL (store (started [root])) = (([root], None), [root])"
    by (simp add: memDAL_def started_def)
  have some: "[root] \<noteq> []" by simp
  have malformed: "decodeUser memJSON (Body (request ''POST'' ''/v2/bootstrap'' [] ''{'')) = None"
    by (simp add: memJSON_def request_def)
  have untouched: "sent (sink_of (Sink fresh)) = None" by (simp add: fresh_def)
  have "calls (started [root]) = []" by (simp add: started_def)
  with handleBootstrap_already_bootstrapped [OF listed some, of memJSON "([], None)" "Sink fresh"
      "request ''POST'' ''/v2/bootstrap'' [] ''{''"] listed malformed untouched
  show ?thesis by (simp add: log_write_def final_status_http_Error)
qed

text \<open>
  Claim C5. When \<^verbatim>\<open>UserList\<close> reports no user and the payload decodes, the user
  that is created has the name \<^verbatim>\<open>admin\<close> whatever name came in, the email
  \<^verbatim>\<open>gort@localhost\<close> and the full name \<^verbatim>\<open>Gort Administrator\<close> when these came in
  empty, and, when the password came in empty, the token that
  \<^verbatim>\<open>data.GenerateRandomToken(32)\<close> returned, so that the password is not empty as
  long as that token is not (if that call fails instead, its error is mapped and answered
  before anything is created). Then the calls on the data access layer
  are those of \<open>bootstrap_steps\<close> in that order: create the user, create the group
  \<^verbatim>\<open>admin\<close>, add the user to it, create the role \<^verbatim>\<open>admin\<close>, grant it to the group,
  grant the four permissions to the role. If all succeed, the answer is the encoded user
  with status 200 and the calls recorded are \<^verbatim>\<open>UserList\<close> and all the steps; if one
  fails, its error is mapped and answered, and the calls recorded are \<^verbatim>\<open>UserList\<close>
  and the steps up to the failed one, with no later step and no call that undoes an
  earlier one.
\<close>

theorem handleBootstrap_provisions:
  assumes "UserList D (store s) = (([], None), st)"
    and "decodeUser J (Body r) = Some decoded"
    and "bootstrapUserWithDefaults gen decoded = (user, gerr)"
    and "run_steps D (bootstrap_steps user) (s\<lparr>store := st, calls := calls s @ [CallUserList]\<rparr>)
           = (outcome, s2)"
  shows "Username user = ''admin''
     \<and> Email user = (if Email decoded = [] then ''gort@localhost'' else Email decoded)
     \<and> FullName user = (if FullName decoded = [] then ''Gort Administrator'' else FullName decoded)
     \<and> (gerr = None \<longrightarrow>
          Password user = (if Password decoded = [] then fst gen else Password decoded))
     \<and> (gerr = None \<and> fst gen \<noteq> [] \<longrightarrow> Password user \<noteq> [])
     \<and> (\<forall>err. gerr = Some err \<longrightarrow>
          Password decoded = [] \<and> snd gen = Some err
          \<and> handleBootstrap D J gen w r s
              = respondAndLogError w err (s\<lparr>store := st, calls := calls s @ [CallUserList]\<rparr>))
     \<and> (gerr = None \<and> outcome = None \<longrightarrow>
          handleBootstrap D J gen w r s = (Write (encodeUser J user @ [CHR 0x0A]) w, s2)
          \<and> calls s2 = calls s @ CallUserList # bootstrap_steps user
          \<and> (sent (sink_of w) = None \<longrightarrow>
                sent (sink_of (fst (handleBootstrap D J gen w r s))) = Some 200
                \<and> body (sink_of (fst (handleBootstrap D J gen w r s)))
                    = body (sink_of w) @ encodeUser J user @ [CHR 0x0A]))
     \<and> (\<forall>err. gerr = None \<and> outcome = Some err \<longrightarrow>
          handleBootstrap D J gen w r s = respondAndLogError w err s2
          \<and> (\<exists>n<length (bootstrap_steps user).
                calls s2 = calls s @ CallUserList # take (Suc n) (bootstrap_steps user)))"
proof -
  let ?s1 = "s\<lparr>store := st, calls := calls s @ [CallUserList]\<rparr>"
  note fields = bootstrapUserWithDefaults_fields [OF assms(3)]
  have failed_gen: "handleBootstrap D J gen w r s = respondAndLogError w err ?s1"
    if "gerr = Some err" for err
    using assms(1,2,3) that by (simp add: handleBootstrap_def called_def Let_def)
  have steps: "handleBootstrap D J gen w r s =
       (case outcome of Some err \<Rightarrow> respondAndLogError w err s2
        | None \<Rightarrow> (Write (encodeUser J user @ [CHR 0x0A]) w, s2))"
    if "gerr = None"
    using handleBootstrap_steps [OF assms(1,2), of gen user w] assms(3,4) that by simp
  have ok: "calls s2 = calls s @ CallUserList # bootstrap_steps user" if "outcome = None"
    using run_steps_calls_ok [of D "bootstrap_steps user" ?s1 s2] assms(4) that by simp
  have failed: "\<exists>n<length (bootstrap_steps user).
      calls s2 = calls s @ CallUserList # take (Suc n) (bootstrap_steps user)"
    if "outcome = Some err" for err
    using run_steps_calls_failed [of D "bootstrap_steps user" ?s1 err s2] assms(4) that by simp
  show ?thesis
    using fields failed_gen steps ok failed
    by (auto simp: resp_Write_untouched)
qed

theorem handleBootstrap_provisions_witness:
  "UserList memDAL (store (started [])) = (([], None), [])
   \<and> decodeUser memJSON (Body (request ''POST'' ''/v2/bootstrap'' [] ''{}'')) = Some zeroUser
   \<and> bootstrapUserWithDefaults (''Xq7'', None) zeroUser
        = (\<lparr>Email = ''gort@localhost'', FullName = ''Gort Administrator'',
            Password = ''Xq7'', Username = ''admin''\<rparr>, None)
   \<and> fst (run_steps memDAL
        (bootstrap_steps \<lparr>Email = ''gort@localhost'', FullName = ''Gort Administrator'',
            Password = ''Xq7'', Username = ''admin''\<rparr>)
        ((started [])\<lparr>store := [], calls := calls (started []) @ [CallUserList]\<rparr>)) = None
   \<and> sent (sink_of (fst (handleBootstrap memDAL memJSON (''Xq7'', None) (Sink fresh)
         (request ''POST'' ''/v2/bootstrap'' [] ''{}'') (started [])))) = Some 200
   \<and> body (sink_of (fst (handleBootstrap memDAL memJSON (''Xq7'', None) (Sink fresh)
         (request ''POST'' ''/v2/bootstrap'' [] ''{}'') (started []))))
        = ''admin'' @ [CHR 0x0A]"
proof -
  let ?r = "request ''POST'' ''/v2/bootstrap'' [] ''{}''"
  let ?admin = "\<lparr>Email = ''gort@localhost'', FullName = ''Gort Administrator'',
            Password = ''Xq7'', Username = ''admin''\<rparr>"
  let ?s1 = "(started [])\<lparr>store := [], calls := calls (started []) @ [CallUserList]\<rparr>"
  have none: "UserList memDAL (store (started [])) = (([], None), [])"
    by (simp add: memDAL_def started_def)
  have decoded: "decodeUser memJSON (Body ?r) = Some zeroUser"
    by (simp add: memJSON_def request_def)
  have defaults: "bootstrapUserWithDefaults (''Xq7'', None) zeroUser = (?admin, None)"
    by (simp add: bootstrapUserWithDefaults_def zeroUser_def)
  obtain s2 where run: "run_steps memDAL (bootstrap_steps ?admin) ?s1 = (None, s2)"
    by (simp add: bootstrap_steps_def memDAL_def called_def started_def)
  have untouched: "sent (sink_of (Sink fresh)) = None" "body (sink_of (Sink fresh)) = []"
    by (simp_all add: fresh_def)
  have name: "encodeUser memJSON ?admin = ''admin''"
    by (simp add: memJSON_def)
  from handleBootstrap_provisions [OF none decoded defaults run, of "Sink fresh"]
    none decoded defaults run untouched name
  show ?thesis by (simp add: resp_Write_untouched)
qed

section \<open>The answers of the login handler\<close>

lemma classify_ErrUnmarshal [simp]:
  "classify gerrs_ErrUnmarshal = MalformedPayload"
  "public_message gerrs_ErrUnmarshal = ''Corrupt JSON payload''"
  by (simp_all add: gerrs_ErrUnmarshal_def classify_single public_message_def)

lemma final_status_resp_Write:
  "sent p = None \<Longrightarrow> final_status (resp_Write bs p) = 200"
  by (simp add: final_status_def resp_Write_untouched)

lemma handleAuthenticate_malformed:
  "decodeUser J (Body r) = None \<Longrightarrow>
     handleAuthenticate D J w r s = (http_Error w ''Corrupt JSON payload'' 406, s)"
  by (simp add: handleAuthenticate_def respondAndLogError_classified)

lemma handleAuthenticate_decoded:
  assumes "decodeUser J (Body r) = Some user"
    and "UserExists D (Username user) (store s) = ((exists, None), st1)"
    and "UserAuthenticate D (Username user) (Password user) st1 = ((authenticated, aerr), st2)"
    and "TokenGenerate D (Username user) (10 * time_Minute) st2 = ((token, terr), st3)"
  shows "fst (handleAuthenticate D J w r s) =
           (if \<not> exists then http_Error w ''No such user'' 400
            else (case aerr of
              Some err \<Rightarrow> http_Error w (public_message err) (taxonomy_status (classify err))
            | None \<Rightarrow>
                if \<not> authenticated then http_Error w ''Forbidden'' 403
                else (case terr of
                  Some err \<Rightarrow> http_Error w (public_message err) (taxonomy_status (classify err))
                | None \<Rightarrow> Write (encodeToken J token @ [CHR 0x0A]) w)))"
  using assms
  by (auto simp: handleAuthenticate_def respondAndLogError_classified called_def Let_def
      split: option.splits)

lemma handleAuthenticate_calls:
  assumes "decodeUser J (Body r) = Some user"
    and "UserExists D (Username user) (store s) = ((True, None), st1)"
    and "UserAuthenticate D (Username user) (Password user) st1 = ((True, None), st2)"
  shows "calls (snd (handleAuthenticate D J w r s))
            = calls s @ [CallUserExists (Username user),
                         CallUserAuthenticate (Username user) (Password user),
                         CallTokenGenerate (Username user) (10 * time_Minute)]"
  using assms
  by (auto simp: handleAuthenticate_def called_def Let_def split: option.splits prod.splits)

text \<open>
  When \<^verbatim>\<open>UserExists\<close> itself returns an error, \<^verbatim>\<open>handleAuthenticate\<close> logs it,
  commits a telemetry event and returns: nothing is written to the response.
\<close>

lemma handleAuthenticate_lookup_failed:
  assumes "decodeUser J (Body r) = Some user"
    and "UserExists D (Username user) (store s) = ((exists, Some err), st1)"
  shows "fst (handleAuthenticate D J w r s) = w"
  using assms by (simp add: handleAuthenticate_def called_def Let_def)

text \<open>
  Claim C6, as stated, fails: the statuses it lists are 200, 400, 403 and the mapped status
  of a failed call on the data access layer, but a body that does not decode is answered
  with 406 before any call on the layer is made.
\<close>

theorem handleAuthenticate_malformed_status:
  "final_status (sink_of (fst (handleAuthenticate memDAL memJSON (Sink fresh)
      (request ''POST'' ''/v2/authenticate'' [] ''{'') (started [root])))) = 406
   \<and> calls (snd (handleAuthenticate memDAL memJSON (Sink fresh)
      (request ''POST'' ''/v2/authenticate'' [] ''{'') (started [root]))) = []
   \<and> (406::int) \<notin> {200, 400, 403}"
  by (simp add: handleAuthenticate_def memJSON_def request_def respondAndLogError_classified
        final_status_http_Error fresh_def started_def)

text \<open>
  Claim C6, amended. A body that does not decode is answered with
  \<^verbatim>\<open>http.Error(w, "Corrupt JSON payload", 406)\<close> and nothing else happens. When the body
  decodes and \<^verbatim>\<open>UserExists\<close> returns no error, exactly one answer is written: 400
  \<^verbatim>\<open>No such user\<close> when the user does not exist; the mapped error of
  \<^verbatim>\<open>UserAuthenticate\<close> when that call fails; 403 \<^verbatim>\<open>Forbidden\<close> when the
  credentials are wrong; the mapped error of \<^verbatim>\<open>TokenGenerate\<close> when that call fails;
  otherwise the encoded token alone, with status 200, the token being the one generated
  for the user's name with a lifetime of ten minutes (600000000000 nanoseconds).
\<close>

theorem handleAuthenticate_responses:
  "(decodeUser J (Body r) = None \<longrightarrow>
      handleAuthenticate D J w r s = (http_Error w ''Corrupt JSON payload'' 406, s)
      \<and> (sent (sink_of w) = None \<longrightarrow>
            final_status (sink_of (fst (handleAuthenticate D J w r s))) = 406))
   \<and> (decodeUser J (Body r) = Some user
       \<and> UserExists D (Username user) (store s) = ((exists, None), st1)
       \<and> UserAuthenticate D (Username user) (Password user) st1 = ((authenticated, aerr), st2)
       \<and> TokenGenerate D (Username user) (10 * time_Minute) st2 = ((token, terr), st3) \<longrightarrow>
      fst (handleAuthenticate D J w r s) =
        (if \<not> exists then http_Error w ''No such user'' 400
         else (case aerr of
           Some err \<Rightarrow> http_Error w (public_message err) (taxonomy_status (classify err))
         | None \<Rightarrow>
             if \<not> authenticated then http_Error w ''Forbidden'' 403
             else (case terr of
               Some err \<Rightarrow> http_Error w (public_message err) (taxonomy_status (classify err))
             | None \<Rightarrow> Write (encodeToken J token @ [CHR 0x0A]) w)))
      \<and> (exists \<and> aerr = None \<and> authenticated \<longrightarrow>
           10 * time_Minute = 600000000000
           \<and> calls (snd (handleAuthenticate D J w r s))
             = calls s @ [CallUserExists (Username user),
                          CallUserAuthenticate (Username user) (Password user),
                          CallTokenGenerate (Username user) (10 * time_Minute)])
      \<and> (sent (sink_of w) = None \<longrightarrow>
           final_status (sink_of (fst (handleAuthenticate D J w r s))) =
             (if \<not> exists then 400
              else (case aerr of
                Some err \<Rightarrow> taxonomy_status (classify err)
              | None \<Rightarrow>
                  if \<not> authenticated then 403
                  else (case terr of
                    Some err \<Rightarrow> taxonomy_status (classify err)
                  | None \<Rightarrow> 200)))))"
proof (intro conjI impI)
  assume "decodeUser J (Body r) = None"
  then show bad: "handleAuthenticate D J w r s = (http_Error w ''Corrupt JSON payload'' 406, s)"
    by (rule handleAuthenticate_malformed)
  assume "sent (sink_of w) = None"
  with bad show "final_status (sink_of (fst (handleAuthenticate D J w r s))) = 406"
    by (simp add: final_status_http_Error)
next
  assume h: "decodeUser J (Body r) = Some user
       \<and> UserExists D (Username user) (store s) = ((exists, None), st1)
       \<and> UserAuthenticate D (Username user) (Password user) st1 = ((authenticated, aerr), st2)
       \<and> TokenGenerate D (Username user) (10 * time_Minute) st2 = ((token, terr), st3)"
  then have d: "decodeUser J (Body r) = Some user"
    and e: "UserExists D (Username user) (store s) = ((exists, None), st1)"
    and a: "UserAuthenticate D (Username user) (Password user) st1 = ((authenticated, aerr), st2)"
    and t: "TokenGenerate D (Username user) (10 * time_Minute) st2 = ((token, terr), st3)"
    by simp_all
  note written = handleAuthenticate_decoded [OF d e a t, of w]
  show "fst (handleAuthenticate D J w r s) =
        (if \<not> exists then http_Error w ''No such user'' 400
         else (case aerr of
           Some err \<Rightarrow> http_Error w (public_message err) (taxonomy_status (classify err))
         | None \<Rightarrow>
             if \<not> authenticated then http_Error w ''Forbidden'' 403
             else (case terr of
               Some err \<Rightarrow> http_Error w (public_message err) (taxonomy_status (classify err))
             | None \<Rightarrow> Write (encodeToken J token @ [CHR 0x0A]) w)))"
    by (rule written)
  {
    assume "exists \<and> aerr = None \<and> authenticated"
    with e a show "calls (snd (handleAuthenticate D J w r s))
             = calls s @ [CallUserExists (Username user),
                          CallUserAuthenticate (Username user) (Password user),
                          CallTokenGenerate (Username user) (10 * time_Minute)]"
      by (intro handleAuthenticate_calls [OF d]) simp_all
    show "10 * time_Minute = 600000000000"
      by (simp add: time_Minute_def)
  }
  assume "sent (sink_of w) = None"
  then show "final_status (sink_of (fst (handleAuthenticate D J w r s))) =
             (if \<not> exists then 400
              else (case aerr of
                Some err \<Rightarrow> taxonomy_status (classify err)
              | None \<Rightarrow>
                  if \<not> authenticated then 403
                  else (case terr of
                    Some err \<Rightarrow> taxonomy_status (classify err)
                  | None \<Rightarrow> 200)))"
    unfolding written
    by (simp add: final_status_http_Error final_status_resp_Write split: option.splits)
qed

theorem handleAuthenticate_responses_witness:
  "decodeUser memJSON (Body (request ''POST'' ''/v2/authenticate'' [] ''{}'')) = Some zeroUser
   \<and> UserExists memDAL (Username zeroUser) (store (started [zeroUser])) = ((True, None), [zeroUser])
   \<and> UserAuthenticate memDAL (Username zeroUser) (Password zeroUser) [zeroUser]
        = ((True, None), [zeroUser])
   \<and> TokenGenerate memDAL (Username zeroUser) (10 * time_Minute) [zeroUser]
        = ((\<lparr>Token = ''token-'', User = []\<rparr>, None), [zeroUser])
   \<and> fst (handleAuthenticate memDAL memJSON (Sink fresh)
        (request ''POST'' ''/v2/authenticate'' [] ''{}'') (started [zeroUser]))
       = Write (''token-'' @ [CHR 0x0A]) (Sink fresh)
   \<and> final_status (sink_of (fst (handleAuthenticate memDAL memJSON (Sink fresh)
        (request ''POST'' ''/v2/authenticate'' [] ''{}'') (started [zeroUser])))) = 200"
proof -
  let ?r = "request ''POST'' ''/v2/authenticate'' [] ''{}''"
  have d: "decodeUser memJSON (Body ?r) = Some zeroUser"
    by (simp add: memJSON_def request_def)
  have e: "UserExists memDAL (Username zeroUser) (store (started [zeroUser])) = ((True, None), [zeroUser])"
    by (simp add: memDAL_def started_def)
  have a: "UserAuthenticate memDAL (Username zeroUser) (Password zeroUser) [zeroUser]
        = ((True, None), [zeroUser])"
    by (simp add: memDAL_def)
  have t: "TokenGenerate memDAL (Username zeroUser) (10 * time_Minute) [zeroUser]
        = ((\<lparr>Token = ''token-'', User = []\<rparr>, None), [zeroUser])"
    by (simp add: memDAL_def zeroUser_def)
  have untouched: "sent (sink_of (Sink fresh)) = None" by (simp add: fresh_def)
  have enc: "encodeToken memJSON \<lparr>Token = ''token-'', User = []\<rparr> = ''token-''"
    by (simp add: memJSON_def)
  from handleAuthenticate_responses [of memJSON ?r memDAL "Sink fresh" "started [zeroUser]" zeroUser
      True "[zeroUser]" True None "[zeroUser]" "\<lparr>Token = ''token-'', User = []\<rparr>" None "[zeroUser]"]
    d e a t untouched enc
  show ?thesis by (simp add: final_status_resp_Write)
qed

section \<open>The health probe\<close>

text \<open>
  Claim C10. Once the probe reaches \<^verbatim>\<open>UserCreate\<close> (the hash it slices has its eight
  bytes): if the creation succeeds, the answer is the body \<^verbatim>\<open>{"healthy":true}\<close> with
  status 200, and \<^verbatim>\<open>UserDelete\<close> is called afterwards with the name of the user just
  created; the answer and the log do not mention what \<^verbatim>\<open>UserDelete\<close> returned, so a
  failed deletion changes neither the status nor the way the handler returns. If the
  creation fails, the answer is \<^verbatim>\<open>http.Error\<close> with the body \<^verbatim>\<open>{"healthy":false}\<close>
  and status 503, one warning is logged and no deletion is attempted.
\<close>

theorem handleHealthz_reports:
  assumes "8 \<le> length testUsername"
    and "testUser = \<lparr>Email = ''healthz@test.user'', FullName = ''Health Check User'',
                     Password = testPassword, Username = ''healthz'' @ take 8 testUsername\<rparr>"
    and "UserCreate D testUser (store s) = (created, st1)"
    and "UserDelete D (Username testUser) st1 = (deleted, st2)"
  shows "(created = None \<longrightarrow>
            handleHealthz D testUsername testPassword w r s
              = Returns (Write (healthy_true @ [CHR 0x0A]) w,
                  log_write TraceLevel [] ''health check pass''
                    (s\<lparr>store := st2,
                       calls := calls s @ [CallUserCreate testUser, CallUserDelete (Username testUser)]\<rparr>))
            \<and> (sent (sink_of w) = None \<longrightarrow>
                  final_status (sink_of (Write (healthy_true @ [CHR 0x0A]) w)) = 200
                  \<and> body (sink_of (Write (healthy_true @ [CHR 0x0A]) w))
                      = body (sink_of w) @ healthy_true @ [CHR 0x0A]))
       \<and> (\<forall>err. created = Some err \<longrightarrow>
            handleHealthz D testUsername testPassword w r s
              = Returns (http_Error w healthy_false 503,
                  log_write WarnLevel [ErrorField err] ''health check failure''
                    (s\<lparr>store := st1, calls := calls s @ [CallUserCreate testUser]\<rparr>))
            \<and> (sent (sink_of w) = None \<longrightarrow>
                  final_status (sink_of (http_Error w healthy_false 503)) = 503
                  \<and> body (sink_of (http_Error w healthy_false 503))
                      = body (sink_of w) @ healthy_false @ [CHR 0x0A]))"
  using assms
  by (auto simp: handleHealthz_def called_def Let_def log_write_def final_status_http_Error
        http_Error_body final_status_resp_Write resp_Write_untouched)

theorem handleHealthz_reports_witness:
  "8 \<le> length ''$2a$14$abcdefgh''
   \<and> UserCreate memDAL \<lparr>Email = ''healthz@test.user'', FullName = ''Health Check User'',
          Password = ''$2a$14$pw'', Username = ''healthz'' @ take 8 ''$2a$14$abcdefgh''\<rparr>
        (store (started [root]))
       = (None, [root, \<lparr>Email = ''healthz@test.user'', FullName = ''Health Check User'',
          Password = ''$2a$14$pw'', Username = ''healthz$2a$14$a''\<rparr>])
   \<and> UserDelete memDAL ''healthz$2a$14$a''
        [root, \<lparr>Email = ''healthz@test.user'', FullName = ''Health Check User'',
          Password = ''$2a$14$pw'', Username = ''healthz$2a$14$a''\<rparr>]
       = (None, [root])
   \<and> (\<exists>s'. handleHealthz memDAL ''$2a$14$abcdefgh'' ''$2a$14$pw'' (Sink fresh)
          (request ''GET'' ''/v2/healthz'' [] []) (started [root])
        = Returns (Write (healthy_true @ [CHR 0x0A]) (Sink fresh), s') \<and> store s' = [root])
   \<and> final_status (sink_of (Write (healthy_true @ [CHR 0x0A]) (Sink fresh))) = 200"
proof -
  let ?u = "\<lparr>Email = ''healthz@test.user'', FullName = ''Health Check User'',
          Password = ''$2a$14$pw'', Username = ''healthz'' @ take 8 ''$2a$14$abcdefgh''\<rparr>"
  have long: "8 \<le> length ''$2a$14$abcdefgh''" by simp
  have created: "UserCreate memDAL ?u (store (started [root])) = (None, [root, ?u])"
    by (simp add: memDAL_def started_def root_def)
  have deleted: "UserDelete memDAL (Username ?u) [root, ?u] = (None, [root])"
    by (simp add: memDAL_def root_def)
  have untouched: "sent (sink_of (Sink fresh)) = None" by (simp add: fresh_def)
  from handleHealthz_reports [OF long refl created deleted, of "Sink fresh"
      "request ''GET'' ''/v2/healthz'' [] []"] created deleted untouched
  show ?thesis by (simp add: log_write_def)
qed

section \<open>The capture writer and the logging middleware\<close>

text \<open>
  A capture writer hands every call to the writer it embeds, so the response behind it is
  the one the same calls produce without it; its cells end up with the argument of the last
  \<^verbatim>\<open>WriteHeader\<close> and the length of the last \<^verbatim>\<open>Write\<close>.
\<close>

lemma run_calls_capture:
  "run_calls cs (StatusCaptureWriter w st by)
     = StatusCaptureWriter (run_calls cs w) (recorded_status st cs) (recorded_bytes by cs)"
proof (induction cs arbitrary: w st "by")
  case Nil
  show ?case by simp
next
  case (Cons c cs)
  show ?case by (cases c) (simp_all add: Cons.IH)
qed

lemma sent_stays:
  "sent (sink_of w) = Some code \<Longrightarrow> sent (sink_of (run_calls cs w)) = Some code"
proof (induction cs arbitrary: w)
  case Nil
  then show ?case by simp
next
  case (Cons c cs)
  from Cons.prems have "sent (sink_of (apply_call c w)) = Some code"
    by (cases c) (simp_all add: resp_Header_Set_def resp_WriteHeader_def resp_Write_def Let_def)
  then show ?case by (simp add: Cons.IH)
qed

lemma recorded_status_no_header:
  "\<not> list_ex is_WriteHeader cs \<Longrightarrow> recorded_status st cs = st"
  by (induction st cs rule: recorded_status.induct) simp_all

lemma header_once_status:
  "header_once cs \<Longrightarrow> sent (sink_of w) = None \<Longrightarrow>
     final_status (sink_of (run_calls cs w)) = recorded_status 200 cs"
proof (induction cs arbitrary: w rule: header_once.induct)
  case 1
  then show ?case by (simp add: final_status_def)
next
  case (2 k v cs)
  then show ?case by (simp add: resp_Header_Set_def)
next
  case (3 code cs)
  from "3.prems" have "sent (sink_of (WriteHeader code w)) = Some code"
    by (simp add: resp_WriteHeader_def)
  from sent_stays [OF this, of cs] "3.prems" show ?case
    by (simp add: final_status_def recorded_status_no_header)
next
  case (4 bs cs)
  from "4.prems" have "sent (sink_of (Write bs w)) = Some 200"
    by (simp add: resp_Write_untouched)
  from sent_stays [OF this, of cs] "4.prems" show ?case
    by (simp add: final_status_def recorded_status_no_header)
qed

lemma http_Error_calls:
  "http_Error w msg code =
     run_calls [SetHeader ''Content-Type'' ''text/plain; charset=utf-8'',
                SetHeader ''X-Content-Type-Options'' ''nosniff'',
                DoWriteHeader code, DoWrite (msg @ [CHR 0x0A])] w"
  by (simp add: http_Error_def)

text \<open>
  Claim C9 says that the byte cell ends up with the total length of the body for any
  sequence of \<^verbatim>\<open>Write\<close> calls. \<^verbatim>\<open>StatusCaptureWriter.Write\<close> assigns the length of
  the current slice to the cell instead of adding it: after writing two bytes and then
  three, the body has five bytes and the cell holds 3.
\<close>

theorem StatusCaptureWriter_keeps_last_write:
  "Write ''cde'' (Write ''ab'' (StatusCaptureWriter (Sink fresh) 200 0))
     = StatusCaptureWriter (Sink \<lparr>headers = [], sent = Some 200, body = ''abcde''\<rparr>) 200 3
   \<and> int (length ''abcde'') = 5"
  by (simp add: fresh_def resp_Write_def resp_WriteHeader_def)

text \<open>
  Claim C7, as stated, fails: when the next handler panics, the logging middleware is left
  at the call of \<^verbatim>\<open>next.ServeHTTP\<close>, and no event is sent.
\<close>

theorem buildLoggingMiddleware_panic_no_event:
  "buildLoggingMiddleware memDAL panicking (Sink fresh)
      (request ''GET'' ''/v2/users'' [] []) (started [root])
     = Panics (Sink fresh, started [root])
   \<and> requests (started [root]) = []"
  by (simp add: buildLoggingMiddleware_def started_def panicking_def)

text \<open>
  Claim C7, amended. When the handler chain returns, having made the calls \<open>cs\<close> on the
  writer it was given, the logging middleware passes exactly these calls on to the
  response, sends exactly one event after the chain's own effects, and the status of the
  event is the argument of the chain's last \<^verbatim>\<open>WriteHeader\<close>, or 200 without one. If
  the chain set the status at most once and not after it started the body, and the
  response was untouched before, that is the status the caller reads. When the chain
  panics, the middleware panics with the state as the chain left it: no event is sent.
\<close>

theorem buildLoggingMiddleware_one_event:
  "(next (StatusCaptureWriter w 200 0) r s = Returns (run_calls cs (StatusCaptureWriter w 200 0), s1) \<longrightarrow>
      (\<exists>s2 e. buildLoggingMiddleware D next w r s = Returns (run_calls cs w, s2)
         \<and> requests s2 = requests s1 @ [e]
         \<and> Status e = recorded_status 200 cs
         \<and> (header_once cs \<and> sent (sink_of w) = None \<longrightarrow>
               Status e = final_status (sink_of (run_calls cs w)))))
   \<and> (next (StatusCaptureWriter w 200 0) r s = Panics (cw, s1) \<longrightarrow>
        buildLoggingMiddleware D next w r s = Panics (embedded cw, s1))"
  by (auto simp: buildLoggingMiddleware_def run_calls_capture header_once_status called_def Let_def
      split: prod.splits)

theorem buildLoggingMiddleware_one_event_witness:
  "tokenObservingMiddleware memDAL listUsers
      (StatusCaptureWriter (Sink fresh) 200 0) (request ''GET'' ''/v2/users'' [] []) (started [root])
     = Returns (run_calls [SetHeader ''Content-Type'' ''text/plain; charset=utf-8'',
                           SetHeader ''X-Content-Type-Options'' ''nosniff'',
                           DoWriteHeader 401, DoWrite (''Unauthorized'' @ [CHR 0x0A])]
                  (StatusCaptureWriter (Sink fresh) 200 0),
                Commit (UnauthorizedRequests ''/v2/users'' ''10.0.0.7'')
                  (Commit (TotalRequests ''/v2/users'' ''10.0.0.7'') (started [root])))
   \<and> header_once [SetHeader ''Content-Type'' ''text/plain; charset=utf-8'',
                    SetHeader ''X-Content-Type-Options'' ''nosniff'',
                    DoWriteHeader 401, DoWrite (''Unauthorized'' @ [CHR 0x0A])]
   \<and> sent (sink_of (Sink fresh)) = None
   \<and> (\<exists>s2 e. buildLoggingMiddleware memDAL
                 (tokenObservingMiddleware memDAL listUsers)
                 (Sink fresh) (request ''GET'' ''/v2/users'' [] []) (started [root])
               = Returns (http_Error (Sink fresh) ''Unauthorized'' 401, s2)
             \<and> requests s2 = [e] \<and> Status e = 401
             \<and> final_status (sink_of (http_Error (Sink fresh) ''Unauthorized'' 401)) = 401)"
proof -
  let ?r = "request ''GET'' ''/v2/users'' [] []"
  let ?cs = "[SetHeader ''Content-Type'' ''text/plain; charset=utf-8'',
              SetHeader ''X-Content-Type-Options'' ''nosniff'',
              DoWriteHeader 401, DoWrite (''Unauthorized'' @ [CHR 0x0A])]"
  let ?s1 = "Commit (UnauthorizedRequests ''/v2/users'' ''10.0.0.7'')
               (Commit (TotalRequests ''/v2/users'' ''10.0.0.7'') (started [root]))"
  let ?next = "tokenObservingMiddleware memDAL listUsers"
  have chain: "?next (StatusCaptureWriter (Sink fresh) 200 0) ?r (started [root])
                 = Returns (run_calls ?cs (StatusCaptureWriter (Sink fresh) 200 0), ?s1)"
    unfolding http_Error_calls [symmetric]
    by (simp add: tokenObservingMiddleware_def hd_strings_Split exempt_iff request_def Header_Get_def Let_def)
  have once: "header_once ?cs" by simp
  have untouched: "sent (sink_of (Sink fresh)) = None" by (simp add: fresh_def)
  have quiet: "requests ?s1 = []" by (simp add: Commit_def started_def)
  have recorded: "recorded_status 200 ?cs = 401" by simp
  from buildLoggingMiddleware_one_event [of ?next "Sink fresh" ?r "started [root]" ?cs ?s1 memDAL]
    chain once untouched
  obtain s2 e where
    "buildLoggingMiddleware memDAL ?next (Sink fresh) ?r (started [root])
       = Returns (run_calls ?cs (Sink fresh), s2)"
    "requests s2 = requests ?s1 @ [e]" "Status e = recorded_status 200 ?cs"
    "Status e = final_status (sink_of (run_calls ?cs (Sink fresh)))"
    by blast
  with quiet recorded have
    "buildLoggingMiddleware memDAL ?next (Sink fresh) ?r (started [root])
       = Returns (http_Error (Sink fresh) ''Unauthorized'' 401, s2)
     \<and> requests s2 = [e] \<and> Status e = 401
     \<and> final_status (sink_of (http_Error (Sink fresh) ''Unauthorized'' 401)) = 401"
    by (simp add: http_Error_calls)
  with chain once untouched show ?thesis by blast
qed

text \<open>
  Claim C8, as stated, fails for a token the store does not know: the middleware drops the
  error of \<^verbatim>\<open>TokenRetrieveByToken\<close> and records the \<^verbatim>\<open>User\<close> field of the token
  value returned with it, which is empty here, not the sentinel.
\<close>

theorem buildLoggingMiddleware_stale_token_user:
  "buildLoggingMiddleware memDAL
      (tokenObservingMiddleware memDAL listUsers)
      (Sink fresh)
      (request ''GET'' ''/v2/users'' [(''X-Session-Token'', [''stale''])] [])
      (started [root])
     = Returns (http_Error (Sink fresh) ''Unauthorized'' 401,
         \<lparr>store = [root],
          calls = [CallTokenEvaluate ''stale'', CallTokenRetrieveByToken ''stale''],
          logs = [],
          telemetry = [TotalRequests ''/v2/users'' ''10.0.0.7'',
                       UnauthorizedRequests ''/v2/users'' ''10.0.0.7''],
          requests = [\<lparr>Addr = ''10.0.0.7:4711'', UserID = [], Timestamp = 0,
                       Request = ''GET /v2/users HTTP/1.1'', Status = 401, Size = 13\<rparr>],
          clock = 0\<rparr>)
   \<and> TokenEvaluate memDAL ''stale'' [root] = (False, [root])
   \<and> TokenRetrieveByToken memDAL ''stale'' [root]
        = ((zeroToken, Some (GoError [ErrNoSuchToken] ''no such token'')), [root])
   \<and> ([] :: string) \<noteq> ''-''"
  by (simp add: buildLoggingMiddleware_def tokenObservingMiddleware_def hd_strings_Split exempt_iff
        request_def Header_Get_def called_def memDAL_def started_def root_def Commit_def
        zeroToken_def http_Error_calls run_calls_capture Let_def)

text \<open>
  Claim C8, amended. When the handler chain returns, the event's user is the sentinel
  \<^verbatim>\<open>-\<close> if the \<^verbatim>\<open>X-Session-Token\<close> header is absent or empty, and otherwise the
  \<^verbatim>\<open>User\<close> field of the token that \<^verbatim>\<open>TokenRetrieveByToken\<close> returns for the header's
  value, whatever error comes with it. The lookup does not touch the response: the writer
  that comes back is the one the chain left.
\<close>

theorem buildLoggingMiddleware_user:
  assumes "next (StatusCaptureWriter w 200 0) r s = Returns (cw, s1)"
    and "TokenRetrieveByToken D (Header_Get r ''X-Session-Token'') (store s1) = ((token, dropped), st2)"
  shows "\<exists>s2 e. buildLoggingMiddleware D next w r s = Returns (embedded cw, s2)
           \<and> requests s2 = requests s1 @ [e]
           \<and> UserID e = (if Header_Get r ''X-Session-Token'' = [] then ''-'' else User token)"
  using assms
  by (auto simp: buildLoggingMiddleware_def called_def Let_def split: prod.splits)

theorem buildLoggingMiddleware_user_witness:
  "listUsers (StatusCaptureWriter (Sink fresh) 200 0)
      (request ''GET'' ''/v2/users'' [(''X-Session-Token'', [''token-root''])] []) (started [root])
     = Returns (Write ''users'' (StatusCaptureWriter (Sink fresh) 200 0), started [root])
   \<and> TokenRetrieveByToken memDAL
        (Header_Get (request ''GET'' ''/v2/users'' [(''X-Session-Token'', [''token-root''])] [])
           ''X-Session-Token'')
        (store (started [root]))
       = ((\<lparr>Token = ''token-root'', User = ''root''\<rparr>, None), [root])
   \<and> (\<exists>s2 e. buildLoggingMiddleware memDAL listUsers (Sink fresh)
                 (request ''GET'' ''/v2/users'' [(''X-Session-Token'', [''token-root''])] [])
                 (started [root])
               = Returns (Write ''users'' (Sink fresh), s2)
             \<and> requests s2 = [e] \<and> UserID e = ''root'')"
proof -
  let ?r = "request ''GET'' ''/v2/users'' [(''X-Session-Token'', [''token-root''])] []"
  let ?next = "listUsers :: rest_User list Handler"
  have chain: "?next (StatusCaptureWriter (Sink fresh) 200 0) ?r (started [root])
     = Returns (Write ''users'' (StatusCaptureWriter (Sink fresh) 200 0), started [root])"
    by (simp add: listUsers_def)
  have header: "Header_Get ?r ''X-Session-Token'' = ''token-root''"
    by (simp add: request_def Header_Get_def)
  have lookup: "TokenRetrieveByToken memDAL (Header_Get ?r ''X-Session-Token'') (store (started [root]))
       = ((\<lparr>Token = ''token-root'', User = ''root''\<rparr>, None), [root])"
    unfolding header by (simp add: memDAL_def started_def root_def)
  have quiet: "requests (started [root]) = []" by (simp add: started_def)
  from buildLoggingMiddleware_user [of ?next "Sink fresh" ?r "started [root]"
      "Write ''users'' (StatusCaptureWriter (Sink fresh) 200 0)" "started [root]" memDAL, OF chain lookup]
  obtain s2 e where
    "buildLoggingMiddleware memDAL ?next (Sink fresh) ?r (started [root])
       = Returns (embedded (Write ''users'' (StatusCaptureWriter (Sink fresh) 200 0)), s2)"
    "requests s2 = requests (started [root]) @ [e]"
    "UserID e = (if Header_Get ?r ''X-Session-Token'' = [] then ''-'' else User \<lparr>Token = ''token-root'', User = ''root''\<rparr>)"
    by blast
  with quiet header have
    "buildLoggingMiddleware memDAL ?next (Sink fresh) ?r (started [root])
       = Returns (Write ''users'' (Sink fresh), s2) \<and> requests s2 = [e] \<and> UserID e = ''root''"
    by simp
  with chain lookup show ?thesis by blast
qed

end
